theory Spec2Isabelle
  imports Complex_Main
begin

section \<open>Data model (core/models.py)\<close>

text \<open>
  Python's \<open>Decimal\<close> values are modelled as rationals (\<^typ>\<open>rat\<close>): sums and
  products are exact, the rounding of the decimal context (28 significant digits) and the
  special values NaN and Infinity are not modelled. An optional field
  (\<open>Decimal | None\<close>, \<open>Token | None\<close>) is an \<^typ>\<open>'a option\<close>.
\<close>

datatype PositionType =
  LENDING_SUPPLY | LENDING_BORROW | LIQUID_STAKING | VAULT | RESTAKING

record Token =
  address :: string
  symbol :: string
  decimals :: int
  name :: "string option"

record Reward =
  reward_token :: Token
  amount :: rat
  reward_usd_value :: "rat option"

record Position =
  protocol :: string
  chain :: string
  position_type :: PositionType
  token :: Token
  balance :: rat
  underlying_token :: "Token option"
  underlying_balance :: "rat option"
  usd_value :: "rat option"
  claimable_rewards :: "Reward list"
  apy :: "rat option"
  health_factor :: "rat option"
  metadata :: "(string \<times> string) list"

text \<open>
  A Python \<open>dict\<close> keeps its keys in the order of their first insertion; the two
  aggregate maps of the summary are association lists in that order.
\<close>

type_synonym usd_by_key = "(string \<times> rat) list"

record PortfolioSummary =
  summary_address :: string
  positions :: "Position list"
  total_usd_value :: rat
  by_chain :: usd_by_key
  by_protocol :: usd_by_key
  total_claimable_rewards_usd :: rat

record ChainActivity =
  activity_chain :: string
  has_activity :: bool
  protocols_detected :: "string list"

section \<open>Dictionaries in insertion order\<close>

text \<open>\<open>d.get(k, default)\<close>: the value stored under \<open>k\<close>, or the default.\<close>

fun dict_get :: "('k \<times> 'v) list \<Rightarrow> 'k \<Rightarrow> 'v \<Rightarrow> 'v" where
  "dict_get [] k dflt = dflt"
| "dict_get ((k', v) # d) k dflt = (if k' = k then v else dict_get d k dflt)"

text \<open>
  \<open>d[k] = v\<close>: an existing key keeps its place and takes the new value, a new key goes
  to the end.
\<close>

fun dict_set :: "('k \<times> 'v) list \<Rightarrow> 'k \<Rightarrow> 'v \<Rightarrow> ('k \<times> 'v) list" where
  "dict_set [] k v = [(k, v)]"
| "dict_set ((k', v') # d) k v = (if k' = k then (k', v) # d else (k', v') # dict_set d k v)"

section \<open>Summary construction (core/aggregator.py, \<open>_build_portfolio_summary\<close>)\<close>

text \<open>\<open>x or Decimal("0")\<close>: \<open>None\<close> and a zero amount both give zero.\<close>

definition or_zero :: "rat option \<Rightarrow> rat" where
  "or_zero v = (case v of None \<Rightarrow> 0 | Some x \<Rightarrow> (if x = 0 then 0 else x))"

text \<open>The inner loop over a position's rewards, adding to \<open>total_rewards_usd\<close>.\<close>

fun sum_rewards :: "rat \<Rightarrow> Reward list \<Rightarrow> rat" where
  "sum_rewards total_rewards_usd [] = total_rewards_usd"
| "sum_rewards total_rewards_usd (reward # rewards) =
     sum_rewards (total_rewards_usd + or_zero (reward_usd_value reward)) rewards"

text \<open>
  The loop over the positions. The accumulator holds the four local variables
  \<open>total_usd\<close>, \<open>by_chain\<close>, \<open>by_protocol\<close> and \<open>total_rewards_usd\<close>.
\<close>

fun summary_loop ::
  "rat \<times> usd_by_key \<times> usd_by_key \<times> rat \<Rightarrow> Position list \<Rightarrow> rat \<times> usd_by_key \<times> usd_by_key \<times> rat"
where
  "summary_loop acc [] = acc"
| "summary_loop (total_usd, chain_totals, protocol_totals, total_rewards_usd) (position # rest) =
     (let pos_value = or_zero (usd_value position)
      in summary_loop
           (total_usd + pos_value,
            dict_set chain_totals (chain position) (dict_get chain_totals (chain position) 0 + pos_value),
            dict_set protocol_totals (protocol position)
              (dict_get protocol_totals (protocol position) 0 + pos_value),
            sum_rewards total_rewards_usd (claimable_rewards position))
           rest)"

definition build_portfolio_summary :: "string \<Rightarrow> Position list \<Rightarrow> PortfolioSummary" where
  "build_portfolio_summary user_address ps =
     (case summary_loop (0, [], [], 0) ps of
        (total_usd, chain_totals, protocol_totals, total_rewards_usd) \<Rightarrow>
          \<lparr>summary_address = user_address,
           positions = ps,
           total_usd_value = total_usd,
           by_chain = chain_totals,
           by_protocol = protocol_totals,
           total_claimable_rewards_usd = total_rewards_usd\<rparr>)"


section \<open>Retry delays (rpc/retry.py)\<close>




section \<open>Address topic encoding (core/scanner.py, \<open>_pad_address\<close>)\<close>

text \<open>
  \<open>address.lower().replace("0x", "")\<close> and \<open>"0x" + clean_addr.zfill(64)\<close>. Strings
  are lists of 8-bit characters; \<open>str.lower\<close> is modelled on ASCII letters.
\<close>

definition lower_char :: "char \<Rightarrow> char" where
  "lower_char c =
     (let n = (of_char c :: nat) in if 65 \<le> n \<and> n \<le> 90 then char_of (n + 32) else c)"

definition str_lower :: "string \<Rightarrow> string" where
  "str_lower s = map lower_char s"

text \<open>
  \<open>s.replace("0x", "")\<close>: every occurrence of \<open>0x\<close>, found from left to right without
  overlap, is removed.
\<close>

fun remove_0x :: "string \<Rightarrow> string" where
  "remove_0x (a # b # cs) =
     (if a = CHR ''0'' \<and> b = CHR ''x'' then remove_0x cs else a # remove_0x (b # cs))"
| "remove_0x cs = cs"

text \<open>
  \<open>s.zfill(width)\<close>: zeros on the left up to the width, after a leading sign if there
  is one.
\<close>

definition zfill :: "nat \<Rightarrow> string \<Rightarrow> string" where
  "zfill width s =
     (if width \<le> length s then s
      else (case s of
              [] \<Rightarrow> replicate width CHR ''0''
            | c # cs \<Rightarrow>
                if c = CHR ''+'' \<or> c = CHR ''-''
                then c # replicate (width - length s) CHR ''0'' @ cs
                else replicate (width - length s) CHR ''0'' @ s))"

definition pad_address :: "string \<Rightarrow> string" where
  "pad_address addr = (let clean_addr = remove_0x (str_lower addr) in ''0x'' @ zfill 64 clean_addr)"

text \<open>
  Hexadecimal digits (the class \<open>[0-9A-Fa-f]\<close>), their values, and the value of a
  string of digits read as a big-endian number.
\<close>

definition is_hex_char :: "char \<Rightarrow> bool" where
  "is_hex_char c = (c \<in> set ''0123456789ABCDEFabcdef'')"

definition is_lower_hex_char :: "char \<Rightarrow> bool" where
  "is_lower_hex_char c = (c \<in> set ''0123456789abcdef'')"

definition digit_val :: "char \<Rightarrow> nat" where
  "digit_val c =
     (let n = (of_char c :: nat)
      in if 48 \<le> n \<and> n \<le> 57 then n - 48
         else if 97 \<le> n \<and> n \<le> 102 then n - 87
         else if 65 \<le> n \<and> n \<le> 70 then n - 55
         else 0)"

definition hex_value :: "string \<Rightarrow> nat" where
  "hex_value ds = foldl (\<lambda>acc c. 16 * acc + digit_val c) 0 ds"


section \<open>Response cache (rpc/cache.py)\<close>

text \<open>
  The clock \<open>time.time()\<close> is an explicit argument \<open>now\<close> of every operation that
  reads it; times are exact numbers. The key of an entry is the SHA-256 digest of the JSON
  text of method and parameters: the key function is the parameter \<open>make_key\<close>, and
  nothing is assumed about it.
\<close>

record 'v CacheEntry =
  entry_value :: 'v
  ttl :: int
  created_at :: rat

text \<open>\<open>CacheEntry.__init__\<close>: \<open>created_at or time.time()\<close>.\<close>

definition new_entry :: "'v \<Rightarrow> int \<Rightarrow> rat option \<Rightarrow> rat \<Rightarrow> 'v CacheEntry" where
  "new_entry v t created now =
     \<lparr>entry_value = v, ttl = t,
      created_at = (case created of None \<Rightarrow> now | Some c \<Rightarrow> (if c = 0 then now else c))\<rparr>"

definition is_expired :: "'v CacheEntry \<Rightarrow> rat \<Rightarrow> bool" where
  "is_expired entry now = (now - created_at entry > of_int (ttl entry))"

record ('k, 'v) RPCCache =
  default_ttl :: int
  entries :: "'k \<rightharpoonup> 'v CacheEntry"

text \<open>
  \<open>RPCCache.get\<close> returns the cached value, or \<open>None\<close> for an absent or expired
  entry; the second component is the cache afterwards (an expired entry is deleted).
\<close>

definition cache_get ::
  "(string \<Rightarrow> 'p \<Rightarrow> 'k) \<Rightarrow> ('k, 'v) RPCCache \<Rightarrow> rat \<Rightarrow> string \<Rightarrow> 'p \<Rightarrow> 'v option \<times> ('k, 'v) RPCCache"
where
  "cache_get make_key cache now method params =
     (let key = make_key method params
      in case entries cache key of
           None \<Rightarrow> (None, cache)
         | Some entry \<Rightarrow>
             if is_expired entry now
             then (None, cache\<lparr>entries := (entries cache)(key := None)\<rparr>)
             else (Some (entry_value entry), cache))"

text \<open>\<open>RPCCache.set\<close>: \<open>ttl = ttl or self.default_ttl\<close>, then a fresh entry.\<close>

definition cache_set ::
  "(string \<Rightarrow> 'p \<Rightarrow> 'k) \<Rightarrow> ('k, 'v) RPCCache \<Rightarrow> rat \<Rightarrow> string \<Rightarrow> 'p \<Rightarrow> 'v \<Rightarrow> int option \<Rightarrow> ('k, 'v) RPCCache"
where
  "cache_set make_key cache now method params v ttl_arg =
     (let key = make_key method params;
          t = (case ttl_arg of
                 None \<Rightarrow> default_ttl cache
               | Some t' \<Rightarrow> (if t' = 0 then default_ttl cache else t'))
      in cache\<lparr>entries := (entries cache)(key \<mapsto> new_entry v t None now)\<rparr>)"

section \<open>Collaborators and the calls made to them\<close>

text \<open>
  The RPC provider, the protocol handlers and the pricing service are outside the
  program. Each is a function of an abstract world \<open>'w\<close> that returns a result and the
  world afterwards, so a collaborator may answer differently each time it is asked. An
  exception is a value: \<open>Inl\<close> of the exception, of which the program reads only the
  text \<open>str(e)\<close>. The program state pairs the world with the list of the calls made so
  far (the list is bookkeeping of the model, it lets a theorem say which calls a run
  made). A log entry is kept as an uninterpreted string.
\<close>

datatype exn = Exn (message: string)

type_synonym topics = "string option list"

type_synonym price_key = "string \<times> string"

type_synonym prices = "price_key \<rightharpoonup> rat"

datatype caller = ActivityProbe | ProtocolDiscovery

datatype call =
    RpcGetLogs caller string string topics "exn + string list"
  | RegistryDiscoveryEvents string
  | HandlerGetPositions string string string
  | PricingGetPrices "price_key list"

record 'w state =
  world :: 'w
  calls :: "call list"

record 'w handler =
  supported_chains :: "string list"
  discovery_events :: "string list"
  get_positions :: "string \<Rightarrow> string \<Rightarrow> 'w \<Rightarrow> (exn + Position list) \<times> 'w"

text \<open>
  \<open>eth_get_logs from_block to_block topics\<close> is
  \<open>rpc_provider.make_request("eth_getLogs", [{fromBlock, toBlock, topics}])\<close>;
  \<open>handlers\<close> is the registry's dictionary from protocol name to handler, in
  registration order; \<open>all_supported_chains\<close> is \<open>get_all_supported_chains()\<close>.
\<close>

record 'w env =
  eth_get_logs :: "string \<Rightarrow> string \<Rightarrow> topics \<Rightarrow> 'w \<Rightarrow> (exn + string list) \<times> 'w"
  get_prices :: "price_key list \<Rightarrow> 'w \<Rightarrow> (exn + prices) \<times> 'w"
  all_supported_chains :: "string list"
  handlers :: "(string \<times> 'w handler) list"

definition record_call :: "call \<Rightarrow> 'w \<Rightarrow> 'w state \<Rightarrow> 'w state" where
  "record_call c w s = \<lparr>world = w, calls = calls s @ [c]\<rparr>"

section \<open>Price enrichment (core/aggregator.py, \<open>_enrich_positions_with_pricing\<close>)\<close>

text \<open>
  \<open>tokens_to_price[key] = ...\<close> followed by \<open>list(tokens_to_price.keys())\<close>: only the
  keys of the dictionary are used, in the order of their first insertion.
\<close>

definition add_key :: "price_key list \<Rightarrow> price_key \<Rightarrow> price_key list" where
  "add_key keys k = (if k \<in> set keys then keys else keys @ [k])"

fun collect_tokens_to_price :: "price_key list \<Rightarrow> Position list \<Rightarrow> price_key list" where
  "collect_tokens_to_price keys [] = keys"
| "collect_tokens_to_price keys (position # rest) =
     (let keys1 = add_key keys (chain position, address (token position));
          keys2 = (case underlying_token position of
                     None \<Rightarrow> keys1
                   | Some underlying \<Rightarrow> add_key keys1 (chain position, address underlying))
      in collect_tokens_to_price keys2 rest)"

text \<open>\<open>prices.get(key, Decimal("0"))\<close>.\<close>

definition price_of :: "prices \<Rightarrow> price_key \<Rightarrow> rat" where
  "price_of ps key = (case ps key of None \<Rightarrow> 0 | Some v \<Rightarrow> v)"

text \<open>Pricing the primary balance: the body shared by the fallback and the last branch.\<close>

definition price_token_directly :: "prices \<Rightarrow> Position \<Rightarrow> Position" where
  "price_token_directly ps position =
     (let token_price = price_of ps (chain position, address (token position))
      in if token_price > 0
         then position\<lparr>usd_value := Some (balance position * token_price)\<rparr>
         else position)"

definition enrich_reward :: "prices \<Rightarrow> string \<Rightarrow> Reward \<Rightarrow> Reward" where
  "enrich_reward ps position_chain reward =
     (let reward_price = price_of ps (position_chain, address (reward_token reward))
      in if reward_price > 0
         then reward\<lparr>reward_usd_value := Some (amount reward * reward_price)\<rparr>
         else reward)"

text \<open>
  The body of the second loop. The test
  \<open>position.underlying_token and position.underlying_balance\<close> is Python truthiness: a
  token object is true, \<open>None\<close> is false, and a \<open>Decimal\<close> is true when it is not
  zero.
\<close>

definition enrich_position :: "prices \<Rightarrow> Position \<Rightarrow> Position" where
  "enrich_position ps position =
     (let priced =
        (case (underlying_token position, underlying_balance position) of
           (Some underlying, Some ub) \<Rightarrow>
             if ub \<noteq> 0
             then (let underlying_price = price_of ps (chain position, address underlying)
                   in if underlying_price > 0
                      then position\<lparr>usd_value := Some (ub * underlying_price)\<rparr>
                      else price_token_directly ps position)
             else price_token_directly ps position
         | _ \<Rightarrow> price_token_directly ps position)
      in priced\<lparr>claimable_rewards :=
           map (enrich_reward ps (chain position)) (claimable_rewards priced)\<rparr>)"

definition enrich_positions_with_pricing ::
  "'w env \<Rightarrow> Position list \<Rightarrow> 'w state \<Rightarrow> (exn + Position list) \<times> 'w state"
where
  "enrich_positions_with_pricing env ps s =
     (if ps = [] then (Inr ps, s)
      else
        (let keys = collect_tokens_to_price [] ps
         in case get_prices env keys (world s) of
              (Inl e, w) \<Rightarrow> (Inl e, record_call (PricingGetPrices keys) w s)
            | (Inr price_map, w) \<Rightarrow>
                (Inr (map (enrich_position price_map) ps),
                 record_call (PricingGetPrices keys) w s)))"

section \<open>Reading the provider's error text (core/scanner.py, \<open>_query_logs_with_chunking\<close>)\<close>

text \<open>\<open>s.startswith(p)\<close>, returning the rest of \<open>s\<close> after \<open>p\<close>.\<close>

fun strip_prefix :: "string \<Rightarrow> string \<Rightarrow> string option" where
  "strip_prefix [] s = Some s"
| "strip_prefix (p # ps) [] = None"
| "strip_prefix (p # ps) (c # cs) = (if p = c then strip_prefix ps cs else None)"

text \<open>\<open>sub in s\<close> for strings.\<close>

fun is_infix :: "string \<Rightarrow> string \<Rightarrow> bool" where
  "is_infix sub [] = (sub = [])"
| "is_infix sub (c # cs) = (strip_prefix sub (c # cs) \<noteq> None \<or> is_infix sub cs)"

text \<open>The class \<open>\s\<close> on ASCII: tab to carriage return, the four separators, space.\<close>

definition is_space_char :: "char \<Rightarrow> bool" where
  "is_space_char c = (let n = (of_char c :: nat) in (9 \<le> n \<and> n \<le> 13) \<or> (28 \<le> n \<and> n \<le> 32))"

text \<open>
  The pattern \<open>\[0x([0-9A-Fa-f]+),\s*0x([0-9A-Fa-f]+)\]\<close> matched at the start of a
  string. Each repetition is followed in the pattern by a character outside its class,
  so only the longest run of the class can match and no backtracking is needed. The
  result is the two groups.
\<close>

definition match_range_here :: "string \<Rightarrow> (string \<times> string) option" where
  "match_range_here s =
     (case strip_prefix ''[0x'' s of
        None \<Rightarrow> None
      | Some r1 \<Rightarrow>
          (let d1 = takeWhile is_hex_char r1; r2 = dropWhile is_hex_char r1
           in if d1 = [] then None
              else (case strip_prefix '','' r2 of
                      None \<Rightarrow> None
                    | Some r3 \<Rightarrow>
                        (case strip_prefix ''0x'' (dropWhile is_space_char r3) of
                           None \<Rightarrow> None
                         | Some r4 \<Rightarrow>
                             (let d2 = takeWhile is_hex_char r4; r5 = dropWhile is_hex_char r4
                              in if d2 = [] then None
                                 else (case strip_prefix '']'' r5 of
                                         None \<Rightarrow> None
                                       | Some r6 \<Rightarrow> Some (d1, d2)))))))"

text \<open>\<open>re.search\<close>: the leftmost position at which the pattern matches.\<close>

fun search_range :: "string \<Rightarrow> (string \<times> string) option" where
  "search_range [] = match_range_here []"
| "search_range (c # cs) =
     (case match_range_here (c # cs) of
        Some groups \<Rightarrow> Some groups
      | None \<Rightarrow> search_range cs)"

text \<open>
  The block range an error suggests: \<open>None\<close> unless the text names the error as one of
  too many results and the pattern is found in it; otherwise \<open>suggested_from\<close> and
  \<open>suggested_to\<close>, each \<open>0x\<close> and the digits of its group as they stand in the text.
\<close>

definition suggested_block_range :: "string \<Rightarrow> (string \<times> string) option" where
  "suggested_block_range error_msg =
     (if is_infix ''query returned more than 10000 results'' error_msg
         \<or> is_infix ''Try with this block range'' error_msg
      then (case search_range error_msg of
              None \<Rightarrow> None
            | Some (g1, g2) \<Rightarrow> Some (''0x'' @ g1, ''0x'' @ g2))
      else None)"

section \<open>Block numbers as text\<close>

text \<open>
  \<open>int(s, 16)\<close> on the strings the program applies it to, \<open>0x\<close> and hexadecimal
  digits, and on the strings \<open>hex\<close> returns (a minus sign first for a negative number).
  Python raises on other strings; the program never passes one.
\<close>

definition strip_0x :: "string \<Rightarrow> string" where
  "strip_0x s = (case strip_prefix ''0x'' s of None \<Rightarrow> s | Some ds \<Rightarrow> ds)"

definition int_base16 :: "string \<Rightarrow> int" where
  "int_base16 s =
     (case strip_prefix ''-'' s of
        Some r \<Rightarrow> - int (hex_value (strip_0x r))
      | None \<Rightarrow> int (hex_value (strip_0x s)))"

definition hex_digit_char :: "nat \<Rightarrow> char" where
  "hex_digit_char d = ''0123456789abcdef'' ! d"

fun hex_nat :: "nat \<Rightarrow> string" where
  "hex_nat n =
     (if n < 16 then [hex_digit_char n] else hex_nat (n div 16) @ [hex_digit_char (n mod 16)])"

declare hex_nat.simps [simp del]

text \<open>\<open>hex(n)\<close>.\<close>

definition py_hex :: "int \<Rightarrow> string" where
  "py_hex n = (if n < 0 then ''-0x'' @ hex_nat (nat (- n)) else ''0x'' @ hex_nat (nat n))"


section \<open>Log queries with chunking (core/scanner.py, \<open>_query_logs_with_chunking\<close>)\<close>

text \<open>
  The \<open>try: ... except Exception: pass\<close> around the queries of the ranges before and
  after the suggested one: an exception leaves \<open>all_logs\<close> as it was.
\<close>

definition swallow :: "((exn + string list) \<times> 's) option \<Rightarrow> (string list \<times> 's) option" where
  "swallow r =
     (case r of
        None \<Rightarrow> None
      | Some (Inl e, s) \<Rightarrow> Some ([], s)
      | Some (Inr logs, s) \<Rightarrow> Some (logs, s))"

text \<open>
  The recursion of the method is bounded by its first argument, the depth still allowed:
  \<open>None\<close> says that the depth did not suffice, so a run that never returns is \<open>None\<close>
  at every depth. (The interpreter's own recursion limit is not modelled.) A result
  \<open>Inl e\<close> is the exception \<open>e\<close> leaving the method. The lists the provider returns
  are values: the provider is taken to return a fresh list on each call.
\<close>

fun query_logs_with_chunking ::
  "nat \<Rightarrow> 'w env \<Rightarrow> topics \<Rightarrow> string \<Rightarrow> string \<Rightarrow> 'w state \<Rightarrow> ((exn + string list) \<times> 'w state) option"
where
  "query_logs_with_chunking 0 env tps from_block to_block s = None"
| "query_logs_with_chunking (Suc depth) env tps from_block to_block s =
     (case eth_get_logs env from_block to_block tps (world s) of
        (Inr logs, w) \<Rightarrow>
          Some (Inr logs,
                record_call (RpcGetLogs ProtocolDiscovery from_block to_block tps (Inr logs)) w s)
      | (Inl e, w) \<Rightarrow>
          (let s1 = record_call (RpcGetLogs ProtocolDiscovery from_block to_block tps (Inl e)) w s
           in case suggested_block_range (message e) of
                None \<Rightarrow> Some (Inl e, s1)
              | Some (suggested_from, suggested_to) \<Rightarrow>
                  (case query_logs_with_chunking depth env tps suggested_from suggested_to s1 of
                     None \<Rightarrow> None
                   | Some (Inl e2, s2) \<Rightarrow> Some (Inl e2, s2)
                   | Some (Inr chunk_logs, s2) \<Rightarrow>
                       (case (if from_block \<noteq> suggested_from
                              then swallow (query_logs_with_chunking depth env tps from_block
                                              (py_hex (int_base16 suggested_from - 1)) s2)
                              else Some ([], s2)) of
                          None \<Rightarrow> None
                        | Some (before_logs, s3) \<Rightarrow>
                            (case (if to_block = ''latest'' \<or> to_block \<noteq> suggested_to
                                   then swallow (query_logs_with_chunking depth env tps
                                                   (py_hex (int_base16 suggested_to + 1))
                                                   to_block s3)
                                   else Some ([], s3)) of
                               None \<Rightarrow> None
                             | Some (after_logs, s4) \<Rightarrow>
                                 Some (Inr (chunk_logs @ before_logs @ after_logs), s4))))))"

declare query_logs_with_chunking.simps [simp del]




section \<open>Chain scanning (core/scanner.py)\<close>

definition transfer_topic :: string where
  "transfer_topic = ''0xddf252ad1be2c89b69c2b068fc378daa952ba7f163c4a11628f55a4df523b3ef''"

text \<open>
  \<open>_has_chain_activity\<close>: one query of the transfer event with the wallet as the
  receiver, over the whole history; a query that raises counts as no activity. The chain
  name is not part of the request (the scanner holds one provider).
\<close>

definition has_chain_activity :: "'w env \<Rightarrow> string \<Rightarrow> string \<Rightarrow> 'w state \<Rightarrow> bool \<times> 'w state" where
  "has_chain_activity env user_address chain_name s =
     (let tps = [Some transfer_topic, None, Some (pad_address user_address)]
      in case eth_get_logs env ''0x0'' ''latest'' tps (world s) of
           (Inr logs, w) \<Rightarrow>
             (logs \<noteq> [],
              record_call (RpcGetLogs ActivityProbe ''0x0'' ''latest'' tps (Inr logs)) w s)
         | (Inl e, w) \<Rightarrow>
             (False,
              record_call (RpcGetLogs ActivityProbe ''0x0'' ''latest'' tps (Inl e)) w s))"

text \<open>\<open>detect_active_chains\<close>: the loop over the supported chains.\<close>

fun detect_loop ::
  "'w env \<Rightarrow> string \<Rightarrow> string list \<Rightarrow> string list \<Rightarrow> 'w state \<Rightarrow> string list \<times> 'w state"
where
  "detect_loop env user_address active_chains [] s = (active_chains, s)"
| "detect_loop env user_address active_chains (c # cs) s =
     (case has_chain_activity env user_address c s of
        (active, s1) \<Rightarrow>
          detect_loop env user_address (if active then active_chains @ [c] else active_chains)
            cs s1)"

definition detect_active_chains :: "'w env \<Rightarrow> string \<Rightarrow> 'w state \<Rightarrow> string list \<times> 'w state" where
  "detect_active_chains env user_address s =
     detect_loop env user_address [] (all_supported_chains env) s"

text \<open>
  \<open>_has_protocol_activity\<close>: for each event signature the three topic layouts are
  queried in turn; the first query that returns a log ends the search with \<open>True\<close>, a
  query that raises is skipped.
\<close>

fun probe_layouts ::
  "nat \<Rightarrow> 'w env \<Rightarrow> topics list \<Rightarrow> 'w state \<Rightarrow> (bool \<times> 'w state) option"
where
  "probe_layouts depth env [] s = Some (False, s)"
| "probe_layouts depth env (tps # rest) s =
     (case query_logs_with_chunking depth env tps ''0x0'' ''latest'' s of
        None \<Rightarrow> None
      | Some (Inr logs, s1) \<Rightarrow>
          (if logs \<noteq> [] then Some (True, s1) else probe_layouts depth env rest s1)
      | Some (Inl e, s1) \<Rightarrow> probe_layouts depth env rest s1)"

definition topic_layouts :: "string \<Rightarrow> string \<Rightarrow> topics list" where
  "topic_layouts event_sig padded_address =
     [[Some event_sig, Some padded_address],
      [Some event_sig, None, Some padded_address],
      [Some event_sig, None, None, Some padded_address]]"

fun signatures_loop ::
  "nat \<Rightarrow> 'w env \<Rightarrow> string \<Rightarrow> string list \<Rightarrow> 'w state \<Rightarrow> (bool \<times> 'w state) option"
where
  "signatures_loop depth env padded_address [] s = Some (False, s)"
| "signatures_loop depth env padded_address (event_sig # sigs) s =
     (case probe_layouts depth env (topic_layouts event_sig padded_address) s of
        None \<Rightarrow> None
      | Some (found, s1) \<Rightarrow>
          (if found then Some (True, s1) else signatures_loop depth env padded_address sigs s1))"

definition has_protocol_activity ::
  "nat \<Rightarrow> 'w env \<Rightarrow> string \<Rightarrow> string \<Rightarrow> string list \<Rightarrow> 'w state \<Rightarrow> (bool \<times> 'w state) option"
where
  "has_protocol_activity depth env user_address chain_name event_signatures s =
     signatures_loop depth env (pad_address user_address) event_signatures s"

text \<open>
  \<open>ProtocolRegistry.get_discovery_events\<close>: the discovery events of the handlers that
  support the chain, keyed by handler name.
\<close>

definition get_discovery_events :: "'w env \<Rightarrow> string \<Rightarrow> (string \<times> string list) list" where
  "get_discovery_events env chain_name =
     foldl (\<lambda>events (handler_name, h). dict_set events handler_name (discovery_events h)) []
       (filter (\<lambda>(handler_name, h). chain_name \<in> set (supported_chains h)) (handlers env))"

fun discover_loop ::
  "nat \<Rightarrow> 'w env \<Rightarrow> string \<Rightarrow> string \<Rightarrow> string list \<Rightarrow> (string \<times> string list) list \<Rightarrow> 'w state
     \<Rightarrow> (string list \<times> 'w state) option"
where
  "discover_loop depth env user_address chain_name discovered [] s = Some (discovered, s)"
| "discover_loop depth env user_address chain_name discovered ((protocol_name, sigs) # rest) s =
     (case has_protocol_activity depth env user_address chain_name sigs s of
        None \<Rightarrow> None
      | Some (found, s1) \<Rightarrow>
          discover_loop depth env user_address chain_name
            (if found then discovered @ [protocol_name] else discovered) rest s1)"

definition discover_protocols ::
  "nat \<Rightarrow> 'w env \<Rightarrow> string \<Rightarrow> string \<Rightarrow> 'w state \<Rightarrow> (string list \<times> 'w state) option"
where
  "discover_protocols depth env user_address chain_name s =
     discover_loop depth env user_address chain_name []
       (get_discovery_events env chain_name)
       (record_call (RegistryDiscoveryEvents chain_name) (world s) s)"

definition scan_chain ::
  "nat \<Rightarrow> 'w env \<Rightarrow> string \<Rightarrow> string \<Rightarrow> 'w state \<Rightarrow> (ChainActivity \<times> 'w state) option"
where
  "scan_chain depth env user_address chain_name s =
     (case has_chain_activity env user_address chain_name s of
        (active, s1) \<Rightarrow>
          if \<not> active
          then Some (\<lparr>activity_chain = chain_name, has_activity = False,
                      protocols_detected = []\<rparr>, s1)
          else (case discover_protocols depth env user_address chain_name s1 of
                  None \<Rightarrow> None
                | Some (found, s2) \<Rightarrow>
                    Some (\<lparr>activity_chain = chain_name, has_activity = True,
                           protocols_detected = found\<rparr>, s2)))"

text \<open>\<open>scan_all_chains\<close>: the active chains are detected first, then scanned.\<close>

fun scan_loop ::
  "nat \<Rightarrow> 'w env \<Rightarrow> string \<Rightarrow> string list \<Rightarrow> ChainActivity list \<Rightarrow> string list \<Rightarrow> 'w state
     \<Rightarrow> (ChainActivity list \<times> 'w state) option"
where
  "scan_loop depth env user_address active_chains results [] s = Some (results, s)"
| "scan_loop depth env user_address active_chains results (c # cs) s =
     (if c \<in> set active_chains
      then (case scan_chain depth env user_address c s of
              None \<Rightarrow> None
            | Some (activity, s1) \<Rightarrow>
                scan_loop depth env user_address active_chains (results @ [activity]) cs s1)
      else scan_loop depth env user_address active_chains
             (results @ [\<lparr>activity_chain = c, has_activity = False, protocols_detected = []\<rparr>])
             cs s)"

definition scan_all_chains ::
  "nat \<Rightarrow> 'w env \<Rightarrow> string \<Rightarrow> 'w state \<Rightarrow> (ChainActivity list \<times> 'w state) option"
where
  "scan_all_chains depth env user_address s =
     (case detect_active_chains env user_address s of
        (active_chains, s1) \<Rightarrow>
          scan_loop depth env user_address active_chains [] (all_supported_chains env) s1)"

section \<open>Position aggregation (core/aggregator.py)\<close>

text \<open>
  \<open>_get_chain_positions\<close>: the handlers of the detected protocols are asked in turn;
  a protocol without a registered handler is skipped, and so is a handler that raises.
\<close>

fun get_chain_positions ::
  "'w env \<Rightarrow> string \<Rightarrow> string \<Rightarrow> Position list \<Rightarrow> string list \<Rightarrow> 'w state
     \<Rightarrow> Position list \<times> 'w state"
where
  "get_chain_positions env user_address chain_name found [] s = (found, s)"
| "get_chain_positions env user_address chain_name found (protocol_name # rest) s =
     (case map_of (handlers env) protocol_name of
        None \<Rightarrow> get_chain_positions env user_address chain_name found rest s
      | Some h \<Rightarrow>
          (case get_positions h user_address chain_name (world s) of
             (Inr protocol_positions, w) \<Rightarrow>
               get_chain_positions env user_address chain_name (found @ protocol_positions) rest
                 (record_call (HandlerGetPositions protocol_name user_address chain_name) w s)
           | (Inl e, w) \<Rightarrow>
               get_chain_positions env user_address chain_name found rest
                 (record_call (HandlerGetPositions protocol_name user_address chain_name) w s)))"

text \<open>
  The fan-out over the active chains. The thread pool is modelled as running the chain
  tasks one after the other in the order of their submission; the timeout of a task is
  not modelled.
\<close>

fun fan_out ::
  "'w env \<Rightarrow> string \<Rightarrow> Position list \<Rightarrow> ChainActivity list \<Rightarrow> 'w state \<Rightarrow> Position list \<times> 'w state"
where
  "fan_out env user_address all_positions [] s = (all_positions, s)"
| "fan_out env user_address all_positions (activity # rest) s =
     (case get_chain_positions env user_address (activity_chain activity) []
             (protocols_detected activity) s of
        (chain_positions, s1) \<Rightarrow>
          fan_out env user_address (all_positions @ chain_positions) rest s1)"

definition get_all_positions ::
  "nat \<Rightarrow> 'w env \<Rightarrow> string \<Rightarrow> 'w state \<Rightarrow> ((exn + PortfolioSummary) \<times> 'w state) option"
where
  "get_all_positions depth env user_address s =
     (case scan_all_chains depth env user_address s of
        None \<Rightarrow> None
      | Some (chain_activities, s1) \<Rightarrow>
          (let active_chains = filter has_activity chain_activities
           in if active_chains = []
              then Some (Inr \<lparr>summary_address = user_address, positions = [],
                              total_usd_value = 0, by_chain = [], by_protocol = [],
                              total_claimable_rewards_usd = 0\<rparr>, s1)
              else (case fan_out env user_address [] active_chains s1 of
                      (all_positions, s2) \<Rightarrow>
                        (case enrich_positions_with_pricing env all_positions s2 of
                           (Inl e, s3) \<Rightarrow> Some (Inl e, s3)
                         | (Inr enriched_positions, s3) \<Rightarrow>
                             Some (Inr (build_portfolio_summary user_address
                                          enriched_positions), s3)))))"

text \<open>A recorded call that is the activity probe of a chain.\<close>

fun is_activity_probe :: "call \<Rightarrow> bool" where
  "is_activity_probe (RpcGetLogs ActivityProbe from_block to_block tps result) = True"
| "is_activity_probe c = False"

section \<open>Example inputs\<close>

text \<open>
  A pricing service that knows a fixed table of prices and answers a request with the
  prices of the requested keys it knows; a world that never changes.
\<close>

definition table_pricing ::
  "(price_key \<times> rat) list \<Rightarrow> price_key list \<Rightarrow> unit \<Rightarrow> (exn + prices) \<times> unit"
where
  "table_pricing table keys w = (Inr (map_of (filter (\<lambda>(k, v). k \<in> set keys) table)), w)"

definition example_token :: "string \<Rightarrow> string \<Rightarrow> Token" where
  "example_token addr sym_name = \<lparr>address = addr, symbol = sym_name, decimals = 18, name = None\<rparr>"

definition example_table :: "(price_key \<times> rat) list" where
  "example_table =
     [((''ethereum'', ''0xvault''), 5),
      ((''ethereum'', ''0xweth''), 2000),
      ((''ethereum'', ''0xaave''), 90)]"

definition pricing_env :: "unit env" where
  "pricing_env =
     \<lparr>eth_get_logs = (\<lambda>from_block to_block tps w. (Inr [], w)),
      get_prices = table_pricing example_table,
      all_supported_chains = [],
      handlers = []\<rparr>"

definition start :: "unit state" where
  "start = \<lparr>world = (), calls = []\<rparr>"

definition vault_position :: "rat \<Rightarrow> rat option \<Rightarrow> Reward list \<Rightarrow> Position" where
  "vault_position shares ub rewards =
     \<lparr>protocol = ''beefy'', chain = ''ethereum'', position_type = VAULT,
      token = example_token ''0xvault'' ''mooWETH'', balance = shares,
      underlying_token = Some (example_token ''0xweth'' ''WETH''),
      underlying_balance = ub, usd_value = None, claimable_rewards = rewards,
      apy = None, health_factor = None, metadata = []\<rparr>"

definition aave_reward :: Reward where
  "aave_reward =
     \<lparr>reward_token = example_token ''0xaave'' ''AAVE'', amount = 2, reward_usd_value = None\<rparr>"





text \<open>
  A provider whose answers change: the first query returns a transfer log, every later
  query returns none. The world counts the queries. One chain is configured and one
  protocol is registered for it.
\<close>

definition fading_env :: "nat env" where
  "fading_env =
     \<lparr>eth_get_logs = (\<lambda>from_block to_block tps w.
         (if w = 0 then Inr [''transfer''] else Inr [], Suc w)),
      get_prices = (\<lambda>keys w. (Inr Map.empty, w)),
      all_supported_chains = [''ethereum''],
      handlers =
        [(''lido'',
          \<lparr>supported_chains = [''ethereum''], discovery_events = [''0xsig''],
           get_positions = (\<lambda>user_address chain_name w. (Inr [], w))\<rparr>)]\<rparr>"

definition wallet :: string where
  "wallet = ''0xae7ab96520DE3A18E5e111B5EaAb095312D7fE84''"

definition probe_topics :: topics where
  "probe_topics = [Some transfer_topic, None, Some (pad_address wallet)]"

section \<open>Properties of the summary\<close>




section \<open>Properties of the retry delay\<close>




section \<open>Properties of the address padding\<close>

lemma hex_chars_lowered:
  "list_all (\<lambda>c. is_lower_hex_char (lower_char c) \<and> lower_char c \<noteq> CHR ''x''
       \<and> digit_val (lower_char c) = digit_val c) ''0123456789ABCDEFabcdef''"
  by code_simp

lemma lower_hex_char:
  "is_hex_char c \<Longrightarrow>
     is_lower_hex_char (lower_char c) \<and> lower_char c \<noteq> CHR ''x''
     \<and> digit_val (lower_char c) = digit_val c"
  using hex_chars_lowered unfolding is_hex_char_def list_all_iff by blast

lemma lower_hex_chars_fixed:
  "list_all (\<lambda>c. lower_char c = c \<and> c \<noteq> CHR ''x'' \<and> is_hex_char c) ''0123456789abcdef''"
  by code_simp

lemma lower_char_lower_hex:
  "is_lower_hex_char c \<Longrightarrow> lower_char c = c \<and> c \<noteq> CHR ''x'' \<and> is_hex_char c"
  using lower_hex_chars_fixed unfolding is_lower_hex_char_def list_all_iff by blast

lemma remove_0x_no_x: "CHR ''x'' \<notin> set s \<Longrightarrow> remove_0x s = s"
  by (induction s rule: remove_0x.induct) auto

lemma foldl_hex_zeros:
  "foldl (\<lambda>acc c. 16 * acc + digit_val c) 0 (replicate k CHR ''0'') = 0"
  by (induction k) (simp_all add: digit_val_def)

lemma hex_value_zeros: "hex_value (replicate k CHR ''0'' @ s) = hex_value s"
  by (simp add: hex_value_def foldl_hex_zeros)

lemma not_sign_chars:
  "list_all (\<lambda>c. c \<noteq> CHR ''+'' \<and> c \<noteq> CHR ''-'') ''0123456789abcdef''"
  by code_simp

lemma lower_hex_not_sign: "is_lower_hex_char c \<Longrightarrow> c \<noteq> CHR ''+'' \<and> c \<noteq> CHR ''-''"
  using not_sign_chars unfolding is_lower_hex_char_def list_all_iff by blast

lemma str_lower_hex:
  assumes "list_all is_hex_char ds"
  shows "list_all is_lower_hex_char (str_lower ds)"
    and "CHR ''x'' \<notin> set (str_lower ds)"
    and "length (str_lower ds) = length ds"
proof -
  from assms have each:
    "\<forall>c\<in>set ds. is_lower_hex_char (lower_char c) \<and> lower_char c \<noteq> CHR ''x''"
    by (simp add: list_all_iff lower_hex_char)
  then show "list_all is_lower_hex_char (str_lower ds)"
    by (simp add: str_lower_def list_all_iff)
  from each show "CHR ''x'' \<notin> set (str_lower ds)"
    by (force simp: str_lower_def)
  show "length (str_lower ds) = length ds"
    by (simp add: str_lower_def)
qed

lemma foldl_hex_lower:
  "list_all is_hex_char ds \<Longrightarrow>
     foldl (\<lambda>acc c. 16 * acc + digit_val c) a (map lower_char ds)
       = foldl (\<lambda>acc c. 16 * acc + digit_val c) a ds"
  by (induction ds arbitrary: a) (simp_all add: lower_hex_char)

lemma hex_value_lower: "list_all is_hex_char ds \<Longrightarrow> hex_value (str_lower ds) = hex_value ds"
  by (simp add: hex_value_def str_lower_def foldl_hex_lower)

lemma str_lower_fixed: "list_all is_lower_hex_char s \<Longrightarrow> str_lower s = s"
  by (induction s) (simp_all add: str_lower_def lower_char_lower_hex)

lemma str_lower_0x:
  "str_lower (CHR ''0'' # CHR ''x'' # s) = CHR ''0'' # CHR ''x'' # str_lower s"
  by (simp add: str_lower_def lower_char_def)

lemma zfill_lower_hex:
  assumes "list_all is_lower_hex_char s" and "s \<noteq> []" and "length s \<le> w"
  shows "zfill w s = replicate (w - length s) CHR ''0'' @ s"
proof (cases "w \<le> length s")
  case True
  with assms show ?thesis by (simp add: zfill_def)
next
  case False
  from assms obtain c cs where s: "s = c # cs" by (cases s) auto
  with assms have "c \<noteq> CHR ''+'' \<and> c \<noteq> CHR ''-''" by (simp add: lower_hex_not_sign)
  with False s show ?thesis by (simp add: zfill_def)
qed

lemma pad_address_hex:
  assumes "list_all is_hex_char ds" and "ds \<noteq> []" and "length ds \<le> 64"
  shows "pad_address (''0x'' @ ds) = ''0x'' @ replicate (64 - length ds) CHR ''0'' @ str_lower ds"
proof -
  have "remove_0x (str_lower (''0x'' @ ds)) = remove_0x (str_lower ds)"
    by (simp add: str_lower_0x)
  also have "\<dots> = str_lower ds"
    using str_lower_hex(2) [OF assms(1)] by (rule remove_0x_no_x)
  finally have clean: "remove_0x (str_lower (''0x'' @ ds)) = str_lower ds" .
  have "zfill 64 (str_lower ds) = replicate (64 - length (str_lower ds)) CHR ''0'' @ str_lower ds"
    using assms str_lower_hex [OF assms(1)] by (intro zfill_lower_hex) (auto simp: str_lower_def)
  with clean show ?thesis
    by (simp add: pad_address_def Let_def str_lower_hex(3) [OF assms(1)])
qed

text \<open>
  C9. For every address written as \<open>0x\<close> and 40 hexadecimal digits (20 bytes), the
  padded address is \<open>0x\<close> followed by exactly 64 lower-case hexadecimal digits, 24
  zeros and then the digits of the address in lower case, so its value as a big-endian
  number is the address; and padding the result again gives the same 66 characters.
\<close>

theorem pad_address_exact_idempotent:
  assumes "list_all is_hex_char ds" and "length ds = 40"
  shows "pad_address (''0x'' @ ds) = ''0x'' @ replicate 24 CHR ''0'' @ str_lower ds
       \<and> length (pad_address (''0x'' @ ds)) = 66
       \<and> list_all is_lower_hex_char (drop 2 (pad_address (''0x'' @ ds)))
       \<and> hex_value (drop 2 (pad_address (''0x'' @ ds))) = hex_value ds
       \<and> pad_address (pad_address (''0x'' @ ds)) = pad_address (''0x'' @ ds)"
proof -
  let ?body = "replicate 24 CHR ''0'' @ str_lower ds"
  from assms have ne: "ds \<noteq> []" by auto
  have once: "pad_address (''0x'' @ ds) = ''0x'' @ ?body"
    using pad_address_hex [OF assms(1) ne] assms(2) by simp
  have zero: "is_lower_hex_char CHR ''0''" by (simp add: is_lower_hex_char_def)
  have low: "list_all is_lower_hex_char ?body"
    using str_lower_hex(1) [OF assms(1)] zero by (simp add: list_all_iff)
  then have hex: "list_all is_hex_char ?body"
    using lower_char_lower_hex by (auto simp: list_all_iff)
  have len: "length ?body = 64"
    using assms(2) str_lower_hex(3) [OF assms(1)] by simp
  have val: "hex_value ?body = hex_value ds"
    by (simp only: hex_value_zeros hex_value_lower [OF assms(1)])
  have "pad_address (''0x'' @ ?body) = ''0x'' @ replicate (64 - length ?body) CHR ''0'' @ str_lower ?body"
    using hex len by (intro pad_address_hex) auto
  also have "\<dots> = ''0x'' @ ?body"
    using str_lower_fixed [OF low] len by simp
  finally have twice: "pad_address (''0x'' @ ?body) = ''0x'' @ ?body" .
  show ?thesis
    using once twice low len val by simp
qed

theorem pad_address_exact_idempotent_witness:
  "list_all is_hex_char ''ae7ab96520DE3A18E5e111B5EaAb095312D7fE84''
   \<and> length ''ae7ab96520DE3A18E5e111B5EaAb095312D7fE84'' = 40
   \<and> pad_address ''0xae7ab96520DE3A18E5e111B5EaAb095312D7fE84''
       = ''0x000000000000000000000000ae7ab96520de3a18e5e111b5eaab095312d7fe84''
   \<and> pad_address (pad_address ''0xae7ab96520DE3A18E5e111B5EaAb095312D7fE84'')
       = ''0x000000000000000000000000ae7ab96520de3a18e5e111b5eaab095312d7fe84''"
proof -
  have h: "list_all is_hex_char ''ae7ab96520DE3A18E5e111B5EaAb095312D7fE84''"
    by code_simp
  have l: "length ''ae7ab96520DE3A18E5e111B5EaAb095312D7fE84'' = 40"
    by simp
  have low: "str_lower ''ae7ab96520DE3A18E5e111B5EaAb095312D7fE84''
      = ''ae7ab96520de3a18e5e111b5eaab095312d7fe84''"
    by code_simp
  have rep: "replicate 24 CHR ''0'' = ''000000000000000000000000''"
    by code_simp
  note t = pad_address_exact_idempotent [OF h l, unfolded append_Cons append_Nil]
  from t have a: "pad_address ''0xae7ab96520DE3A18E5e111B5EaAb095312D7fE84''
      = ''0x000000000000000000000000ae7ab96520de3a18e5e111b5eaab095312d7fe84''"
    by (simp add: low rep)
  from t have b: "pad_address (pad_address ''0xae7ab96520DE3A18E5e111B5EaAb095312D7fE84'')
      = pad_address ''0xae7ab96520DE3A18E5e111B5EaAb095312D7fE84''"
    by (elim conjE)
  from b a have c: "pad_address (pad_address ''0xae7ab96520DE3A18E5e111B5EaAb095312D7fE84'')
      = ''0x000000000000000000000000ae7ab96520de3a18e5e111b5eaab095312d7fe84''"
    by (rule trans)
  show ?thesis by (intro conjI h l a c)
qed


section \<open>Properties of the price enrichment\<close>

lemma enrich_position_frame:
  "protocol (enrich_position ps p) = protocol p
   \<and> chain (enrich_position ps p) = chain p
   \<and> position_type (enrich_position ps p) = position_type p
   \<and> token (enrich_position ps p) = token p
   \<and> balance (enrich_position ps p) = balance p
   \<and> underlying_token (enrich_position ps p) = underlying_token p
   \<and> underlying_balance (enrich_position ps p) = underlying_balance p
   \<and> apy (enrich_position ps p) = apy p
   \<and> health_factor (enrich_position ps p) = health_factor p
   \<and> metadata (enrich_position ps p) = metadata p"
  by (simp add: enrich_position_def price_token_directly_def Let_def split: option.splits)

lemma enrich_position_rewards:
  "claimable_rewards (enrich_position ps p)
     = map (enrich_reward ps (chain p)) (claimable_rewards p)"
  by (simp add: enrich_position_def price_token_directly_def Let_def split: option.splits)

lemma enrich_reward_frame:
  "reward_token (enrich_reward ps c r) = reward_token r \<and> amount (enrich_reward ps c r) = amount r"
  by (simp add: enrich_reward_def Let_def)

text \<open>
  C10. For every list of positions, enrichment returns a list of the same length and in
  the same order, and it changes nothing but the \<open>usd_value\<close> of a position and the
  \<open>usd_value\<close> of a reward: protocol, chain, position type, token, balance, underlying
  token, underlying balance, the rewards' tokens and amounts, APY, health factor and
  metadata of every position are the ones it was given.
\<close>

theorem enrichment_frame:
  assumes "enrich_positions_with_pricing env ps s = (Inr ps', s')"
  shows "length ps' = length ps
    \<and> (\<forall>i. i < length ps \<longrightarrow>
         protocol (ps' ! i) = protocol (ps ! i)
       \<and> chain (ps' ! i) = chain (ps ! i)
       \<and> position_type (ps' ! i) = position_type (ps ! i)
       \<and> token (ps' ! i) = token (ps ! i)
       \<and> balance (ps' ! i) = balance (ps ! i)
       \<and> underlying_token (ps' ! i) = underlying_token (ps ! i)
       \<and> underlying_balance (ps' ! i) = underlying_balance (ps ! i)
       \<and> map reward_token (claimable_rewards (ps' ! i))
            = map reward_token (claimable_rewards (ps ! i))
       \<and> map amount (claimable_rewards (ps' ! i)) = map amount (claimable_rewards (ps ! i))
       \<and> apy (ps' ! i) = apy (ps ! i)
       \<and> health_factor (ps' ! i) = health_factor (ps ! i)
       \<and> metadata (ps' ! i) = metadata (ps ! i))"
proof -
  from assms have "ps' = ps \<or> (\<exists>pm. ps' = map (enrich_position pm) ps)"
    by (auto simp: enrich_positions_with_pricing_def Let_def split: if_splits prod.splits sum.splits)
  then show ?thesis
  proof
    assume "ps' = ps"
    then show ?thesis by simp
  next
    assume "\<exists>pm. ps' = map (enrich_position pm) ps"
    then obtain pm where ps': "ps' = map (enrich_position pm) ps" ..
    show ?thesis
      by (simp add: ps' enrich_position_frame enrich_position_rewards enrich_reward_frame
          comp_def)
  qed
qed

theorem enrichment_frame_witness:
  "enrich_positions_with_pricing pricing_env [vault_position 3 (Some 4) [aave_reward]] start
     = (Inr [(vault_position 3 (Some 4) [aave_reward])\<lparr>usd_value := Some 8000\<rparr>],
        \<lparr>world = (), calls = [PricingGetPrices [(''ethereum'', ''0xvault''), (''ethereum'', ''0xweth'')]]\<rparr>)
   \<and> length [(vault_position 3 (Some 4) [aave_reward])\<lparr>usd_value := Some 8000\<rparr>]
       = length [vault_position 3 (Some 4) [aave_reward]]
   \<and> balance ([(vault_position 3 (Some 4) [aave_reward])\<lparr>usd_value := Some 8000\<rparr>] ! 0) = 3"
proof -
  have run: "enrich_positions_with_pricing pricing_env [vault_position 3 (Some 4) [aave_reward]] start
     = (Inr [(vault_position 3 (Some 4) [aave_reward])\<lparr>usd_value := Some 8000\<rparr>],
        \<lparr>world = (), calls = [PricingGetPrices [(''ethereum'', ''0xvault''), (''ethereum'', ''0xweth'')]]\<rparr>)"
    by (simp add: enrich_positions_with_pricing_def pricing_env_def start_def vault_position_def
        aave_reward_def example_token_def example_table_def table_pricing_def add_key_def
        record_call_def enrich_position_def enrich_reward_def price_of_def
        price_token_directly_def Let_def)
  from enrichment_frame [OF run] run show ?thesis
    by (simp add: vault_position_def)
qed





text \<open>
  C4 at a concrete input. One position with a reward in a token of its own: the single
  batched request holds the pairs of the primary and of the underlying token and not the
  pair of the reward token, so the reward stays without a USD value although the pricing
  service knows a price (90) for its token.
\<close>

theorem reward_price_not_requested:
  "calls (snd (enrich_positions_with_pricing pricing_env [vault_position 3 (Some 4) [aave_reward]] start))
     = [PricingGetPrices [(''ethereum'', ''0xvault''), (''ethereum'', ''0xweth'')]]
   \<and> (''ethereum'', address (reward_token aave_reward))
        \<notin> set [(''ethereum'', ''0xvault''), (''ethereum'', ''0xweth'')]
   \<and> map_of example_table (''ethereum'', address (reward_token aave_reward)) = Some 90
   \<and> map (\<lambda>p. map reward_usd_value (claimable_rewards p))
        (case fst (enrich_positions_with_pricing pricing_env
                     [vault_position 3 (Some 4) [aave_reward]] start) of
           Inl e \<Rightarrow> [] | Inr ps' \<Rightarrow> ps')
      = [[None]]"
  by (simp add: enrich_positions_with_pricing_def pricing_env_def start_def vault_position_def
      aave_reward_def example_token_def example_table_def table_pricing_def add_key_def
      record_call_def enrich_position_def enrich_reward_def price_of_def
      price_token_directly_def Let_def)

section \<open>Properties of the response cache\<close>

text \<open>
  C8 at a concrete input. An entry set at time 100 with \<open>ttl=0\<close> into a cache whose
  default time-to-live is 300 is stored with the time-to-live 300 (\<open>ttl or default_ttl\<close>
  takes the default for 0 as it does for \<open>None\<close>), and a lookup at time 101, after more
  than the requested 0 seconds, returns the value.
\<close>

theorem zero_ttl_takes_default:
  "ttl (the (entries (cache_set Pair \<lparr>default_ttl = 300, entries = Map.empty\<rparr> 100
                        ''eth_blockNumber'' ([]::string list) ''0x10'' (Some 0))
                     (''eth_blockNumber'', []))) = 300
   \<and> (101::rat) - 100 > of_int 0
   \<and> fst (cache_get Pair
            (cache_set Pair \<lparr>default_ttl = 300, entries = Map.empty\<rparr> 100
               ''eth_blockNumber'' ([]::string list) ''0x10'' (Some 0))
            101 ''eth_blockNumber'' []) = Some ''0x10''"
  by (simp add: cache_set_def cache_get_def new_entry_def is_expired_def Let_def)

text \<open>
  The round trip for every time-to-live other than zero: a lookup within the time-to-live
  returns the value that was set, a later lookup returns nothing and deletes the entry.
\<close>

theorem cache_roundtrip:
  assumes "T \<noteq> 0"
  shows "(t - t0 \<le> of_int T \<longrightarrow>
            fst (cache_get mk (cache_set mk c t0 m p v (Some T)) t m p) = Some v)
       \<and> (t - t0 > of_int T \<longrightarrow>
            cache_get mk (cache_set mk c t0 m p v (Some T)) t m p
              = (None, c\<lparr>entries := (entries c)(mk m p := None)\<rparr>))"
  using assms
  by (auto simp: cache_set_def cache_get_def new_entry_def is_expired_def Let_def)

theorem cache_roundtrip_witness:
  "(60::int) \<noteq> 0
   \<and> fst (cache_get Pair (cache_set Pair \<lparr>default_ttl = 300, entries = Map.empty\<rparr> 100
            ''eth_blockNumber'' ([]::string list) ''0x10'' (Some 60)) 160 ''eth_blockNumber'' [])
       = Some ''0x10''
   \<and> cache_get Pair (cache_set Pair \<lparr>default_ttl = 300, entries = Map.empty\<rparr> 100
            ''eth_blockNumber'' ([]::string list) ''0x10'' (Some 60)) 161 ''eth_blockNumber'' []
       = (None, \<lparr>default_ttl = 300, entries = Map.empty\<rparr>)"
proof -
  have h: "(60::int) \<noteq> 0" by simp
  from cache_roundtrip [OF h, of 160 100 Pair "\<lparr>default_ttl = 300, entries = Map.empty\<rparr>"
      "''eth_blockNumber''" "[]::string list" "''0x10''"]
    cache_roundtrip [OF h, of 161 100 Pair "\<lparr>default_ttl = 300, entries = Map.empty\<rparr>"
      "''eth_blockNumber''" "[]::string list" "''0x10''"]
  show ?thesis by simp
qed

section \<open>Properties of the chunked log query\<close>























section \<open>The chunked log query on concrete providers\<close>
















section \<open>Properties of the aggregation\<close>

lemma has_chain_activity_calls:
  assumes "has_chain_activity env user_address c s = (active, s1)"
  shows "\<exists>new. calls s1 = calls s @ new \<and> list_all is_activity_probe new"
proof -
  let ?tps = "[Some transfer_topic, None, Some (pad_address user_address)]"
  obtain res w where req: "eth_get_logs env ''0x0'' ''latest'' ?tps (world s) = (res, w)"
    by (cases "eth_get_logs env ''0x0'' ''latest'' ?tps (world s)")
  have "calls s1 = calls s @ [RpcGetLogs ActivityProbe ''0x0'' ''latest'' ?tps res]"
    using assms req
    by (cases res) (auto simp: has_chain_activity_def Let_def record_call_def)
  then show ?thesis by simp
qed

lemma detect_loop_calls:
  "detect_loop env user_address active cs s = (active', s1) \<Longrightarrow>
   \<exists>new. calls s1 = calls s @ new \<and> list_all is_activity_probe new"
proof (induction cs arbitrary: active s)
  case Nil
  then show ?case by simp
next
  case (Cons c cs)
  obtain a s0 where probe: "has_chain_activity env user_address c s = (a, s0)"
    by (cases "has_chain_activity env user_address c s")
  from has_chain_activity_calls [OF probe] obtain new0 where
    n0: "calls s0 = calls s @ new0" "list_all is_activity_probe new0" by blast
  from Cons.prems probe have
    "detect_loop env user_address (if a then active @ [c] else active) cs s0 = (active', s1)"
    by simp
  from Cons.IH [OF this] obtain new1 where
    n1: "calls s1 = calls s0 @ new1" "list_all is_activity_probe new1" by blast
  from n0 n1 have "calls s1 = calls s @ (new0 @ new1) \<and> list_all is_activity_probe (new0 @ new1)"
    by simp
  then show ?case by blast
qed

lemma scan_chain_inactive:
  assumes "scan_chain depth env user_address c s = Some (activity, s1)"
    and "\<not> has_activity activity"
  shows "\<exists>new. calls s1 = calls s @ new \<and> list_all is_activity_probe new"
proof -
  obtain a s0 where probe: "has_chain_activity env user_address c s = (a, s0)"
    by (cases "has_chain_activity env user_address c s")
  from assms probe have "\<not> a \<and> s1 = s0"
    by (auto simp: scan_chain_def split: if_splits option.splits)
  with has_chain_activity_calls [OF probe] show ?thesis by simp
qed

lemma scan_loop_keeps_results:
  "scan_loop depth env user_address active results cs s = Some (results', s1) \<Longrightarrow>
   set results \<subseteq> set results'"
proof (induction cs arbitrary: results s)
  case Nil
  then show ?case by simp
next
  case (Cons c cs)
  show ?case
  proof (cases "c \<in> set active")
    case True
    with Cons.prems obtain activity s0 where
      "scan_loop depth env user_address active (results @ [activity]) cs s0 = Some (results', s1)"
      by (auto split: option.splits)
    from Cons.IH [OF this] show ?thesis by simp
  next
    case False
    with Cons.prems have
      "scan_loop depth env user_address active
         (results @ [\<lparr>activity_chain = c, has_activity = False, protocols_detected = []\<rparr>])
         cs s = Some (results', s1)"
      by simp
    from Cons.IH [OF this] show ?thesis by simp
  qed
qed

lemma scan_loop_inactive:
  "scan_loop depth env user_address active results cs s = Some (results', s1) \<Longrightarrow>
   \<forall>a\<in>set results'. \<not> has_activity a \<Longrightarrow>
   \<exists>new. calls s1 = calls s @ new \<and> list_all is_activity_probe new"
proof (induction cs arbitrary: results s)
  case Nil
  then show ?case by simp
next
  case (Cons c cs)
  show ?case
  proof (cases "c \<in> set active")
    case True
    with Cons.prems(1) obtain activity s0 where
      one: "scan_chain depth env user_address c s = Some (activity, s0)" and
      rest: "scan_loop depth env user_address active (results @ [activity]) cs s0
               = Some (results', s1)"
      by (auto split: option.splits)
    from scan_loop_keeps_results [OF rest] Cons.prems(2) have "\<not> has_activity activity"
      by auto
    from scan_chain_inactive [OF one this] obtain new0 where
      n0: "calls s0 = calls s @ new0" "list_all is_activity_probe new0" by blast
    from Cons.IH [OF rest Cons.prems(2)] obtain new1 where
      n1: "calls s1 = calls s0 @ new1" "list_all is_activity_probe new1" by blast
    from n0 n1 have
      "calls s1 = calls s @ (new0 @ new1) \<and> list_all is_activity_probe (new0 @ new1)"
      by simp
    then show ?thesis by blast
  next
    case False
    with Cons.prems(1) have
      "scan_loop depth env user_address active
         (results @ [\<lparr>activity_chain = c, has_activity = False, protocols_detected = []\<rparr>])
         cs s = Some (results', s1)"
      by simp
    from Cons.IH [OF this Cons.prems(2)] show ?thesis .
  qed
qed

lemma scan_all_chains_inactive:
  assumes "scan_all_chains depth env user_address s = Some (chain_activities, s1)"
    and "\<forall>a\<in>set chain_activities. \<not> has_activity a"
  shows "\<exists>new. calls s1 = calls s @ new \<and> list_all is_activity_probe new"
proof -
  obtain active s0 where d: "detect_active_chains env user_address s = (active, s0)"
    by (cases "detect_active_chains env user_address s")
  from d obtain new0 where n0: "calls s0 = calls s @ new0" "list_all is_activity_probe new0"
    unfolding detect_active_chains_def by (blast dest: detect_loop_calls)
  from assms(1) d have
    "scan_loop depth env user_address active [] (all_supported_chains env) s0
       = Some (chain_activities, s1)"
    by (simp add: scan_all_chains_def)
  from scan_loop_inactive [OF this assms(2)] obtain new1 where
    n1: "calls s1 = calls s0 @ new1" "list_all is_activity_probe new1" by blast
  from n0 n1 have
    "calls s1 = calls s @ (new0 @ new1) \<and> list_all is_activity_probe (new0 @ new1)"
    by simp
  then show ?thesis by blast
qed

text \<open>
  C2. For every wallet for which the scan reports no chain with activity (every
  \<open>ChainActivity\<close> it returns has \<open>has_activity\<close> false), \<open>get_all_positions\<close>
  returns the summary with a total of zero, no positions, empty \<open>by_chain\<close> and
  \<open>by_protocol\<close> maps and zero claimable rewards, and every call the run made to a
  collaborator is the activity probe of a chain: there is no call of protocol discovery,
  none to a protocol handler and none to the pricing service.
\<close>

theorem no_activity_empty_summary:
  assumes "scan_all_chains depth env user_address s = Some (chain_activities, s1)"
    and "\<forall>a\<in>set chain_activities. \<not> has_activity a"
  shows "get_all_positions depth env user_address s
       = Some (Inr \<lparr>summary_address = user_address, positions = [], total_usd_value = 0,
                     by_chain = [], by_protocol = [], total_claimable_rewards_usd = 0\<rparr>, s1)
    \<and> (\<exists>new. calls s1 = calls s @ new \<and> (\<forall>c\<in>set new. is_activity_probe c))"
proof -
  from assms(2) have "filter has_activity chain_activities = []"
    by (simp add: filter_empty_conv)
  with assms(1) have "get_all_positions depth env user_address s
       = Some (Inr \<lparr>summary_address = user_address, positions = [], total_usd_value = 0,
                     by_chain = [], by_protocol = [], total_claimable_rewards_usd = 0\<rparr>, s1)"
    by (simp add: get_all_positions_def)
  moreover from scan_all_chains_inactive [OF assms] have
    "\<exists>new. calls s1 = calls s @ new \<and> (\<forall>c\<in>set new. is_activity_probe c)"
    by (simp add: list_all_iff)
  ultimately show ?thesis by blast
qed

theorem no_activity_empty_summary_witness:
  "scan_all_chains 0 fading_env wallet \<lparr>world = 0, calls = []\<rparr>
     = Some ([\<lparr>activity_chain = ''ethereum'', has_activity = False, protocols_detected = []\<rparr>],
             \<lparr>world = 2,
              calls = [RpcGetLogs ActivityProbe ''0x0'' ''latest'' probe_topics (Inr [''transfer'']),
                       RpcGetLogs ActivityProbe ''0x0'' ''latest'' probe_topics (Inr [])]\<rparr>)
   \<and> list_all (\<lambda>a. \<not> has_activity a)
        [\<lparr>activity_chain = ''ethereum'', has_activity = False, protocols_detected = []\<rparr>]
   \<and> get_all_positions 0 fading_env wallet \<lparr>world = 0, calls = []\<rparr>
     = Some (Inr \<lparr>summary_address = wallet, positions = [], total_usd_value = 0,
                   by_chain = [], by_protocol = [], total_claimable_rewards_usd = 0\<rparr>,
             \<lparr>world = 2,
              calls = [RpcGetLogs ActivityProbe ''0x0'' ''latest'' probe_topics (Inr [''transfer'']),
                       RpcGetLogs ActivityProbe ''0x0'' ''latest'' probe_topics (Inr [])]\<rparr>)"
proof -
  have scan: "scan_all_chains 0 fading_env wallet \<lparr>world = 0, calls = []\<rparr>
     = Some ([\<lparr>activity_chain = ''ethereum'', has_activity = False, protocols_detected = []\<rparr>],
             \<lparr>world = 2,
              calls = [RpcGetLogs ActivityProbe ''0x0'' ''latest'' probe_topics (Inr [''transfer'']),
                       RpcGetLogs ActivityProbe ''0x0'' ''latest'' probe_topics (Inr [])]\<rparr>)"
    by (simp add: scan_all_chains_def detect_active_chains_def scan_chain_def
        has_chain_activity_def fading_env_def probe_topics_def record_call_def Let_def)
  have quiet: "\<forall>a\<in>set [\<lparr>activity_chain = ''ethereum'', has_activity = False,
                           protocols_detected = []\<rparr>]. \<not> has_activity a"
    by simp
  from no_activity_empty_summary [OF scan quiet] scan show ?thesis
    by simp
qed

end
